theory Spec2Isabelle
  imports Main
begin

section \<open>JavaScript values and errors\<close>

text \<open>
  The values that flow through \<^verbatim>\<open>src/index.js\<close>: filter values, identifiers, submitted
  data and parsed response bodies. An object is the list of its own enumerable properties
  in enumeration order (a well-formed object has no key twice; a read takes the first
  binding). Numbers are the integral ones, written in decimal; strings are sequences of
  code units.
\<close>

datatype jsval =
    JUndefined
  | JNull
  | JBool bool
  | JNum int
  | JStr string
  | JArr "jsval list"
  | JObj "(string \<times> jsval) list"

text \<open>
  What a call can throw: the engine's \<^verbatim>\<open>TypeError\<close> (a property read or method call
  on \<^verbatim>\<open>null\<close> or \<^verbatim>\<open>undefined\<close>, a call of something that is not a function), an
  \<^verbatim>\<open>Error\<close> object carrying the message given to \<^verbatim>\<open>new Error(...)\<close>, and a rejection
  of the promise returned by the transport.
\<close>

datatype js_error =
    TypeError
  | Error string
  | TransportFailure string

subsection \<open>Numbers as decimal text\<close>

definition digit_char :: "nat \<Rightarrow> char" where
  "digit_char d = char_of (48 + d)"

function show_nat :: "nat \<Rightarrow> string" where
  "show_nat n = (if n < 10 then [digit_char n] else show_nat (n div 10) @ [digit_char (n mod 10)])"
  by pat_completeness auto
termination
  by (relation "measure (\<lambda>n. n)") auto

declare show_nat.simps [simp del]

definition show_int :: "int \<Rightarrow> string" where
  "show_int i = (if i < 0 then CHR ''-'' # show_nat (nat (- i)) else show_nat (nat i))"

subsection \<open>Conversion to string\<close>

fun join :: "string \<Rightarrow> string list \<Rightarrow> string" where
  "join sep [] = []"
| "join sep [s] = s"
| "join sep (s # t # ss) = s @ sep @ join sep (t # ss)"

text \<open>
  \<^verbatim>\<open>ToString\<close>, as a template literal applies it. An array is its elements joined by
  commas, where \<^verbatim>\<open>null\<close> and \<^verbatim>\<open>undefined\<close> elements give the empty string; a plain
  object is \<^verbatim>\<open>[object Object]\<close>.
\<close>

fun to_string :: "jsval \<Rightarrow> string" where
  "to_string JUndefined = ''undefined''"
| "to_string JNull = ''null''"
| "to_string (JBool b) = (if b then ''true'' else ''false'')"
| "to_string (JNum n) = show_int n"
| "to_string (JStr s) = s"
| "to_string (JArr xs) =
     join '','' (map (\<lambda>x. if x = JUndefined \<or> x = JNull then [] else to_string x) xs)"
| "to_string (JObj ps) = ''[object Object]''"

text \<open>\<^verbatim>\<open>xs.join(",")\<close> on an array.\<close>

definition array_join :: "jsval list \<Rightarrow> string" where
  "array_join xs = to_string (JArr xs)"

text \<open>
  The method call \<^verbatim>\<open>v.toString()\<close>: \<^verbatim>\<open>null\<close> and \<^verbatim>\<open>undefined\<close> have no properties,
  so the call throws; every other value of the model answers with its \<^verbatim>\<open>ToString\<close>.
\<close>

fun toString_method :: "jsval \<Rightarrow> js_error + string" where
  "toString_method JUndefined = Inl TypeError"
| "toString_method JNull = Inl TypeError"
| "toString_method v = Inr (to_string v)"

fun typeof :: "jsval \<Rightarrow> string" where
  "typeof JUndefined = ''undefined''"
| "typeof JNull = ''object''"
| "typeof (JBool b) = ''boolean''"
| "typeof (JNum n) = ''number''"
| "typeof (JStr s) = ''string''"
| "typeof (JArr xs) = ''object''"
| "typeof (JObj ps) = ''object''"

subsection \<open>Objects\<close>

text \<open>\<^verbatim>\<open>o[key]\<close>: the value of the property, \<^verbatim>\<open>undefined\<close> when there is none.\<close>

definition obj_get :: "(string \<times> jsval) list \<Rightarrow> string \<Rightarrow> jsval" where
  "obj_get ps key = (case map_of ps key of None \<Rightarrow> JUndefined | Some v \<Rightarrow> v)"

text \<open>
  \<^verbatim>\<open>o[key] = v\<close>: an existing property keeps its place and takes the new value, a new
  one is added at the end.
\<close>

fun obj_set :: "string \<Rightarrow> 'a \<Rightarrow> (string \<times> 'a) list \<Rightarrow> (string \<times> 'a) list" where
  "obj_set key v [] = [(key, v)]"
| "obj_set key v ((k, w) # ps) = (if k = key then (key, v) # ps else (k, w) # obj_set key v ps)"

text \<open>\<^verbatim>\<open>Object.keys(o)\<close>.\<close>

definition object_keys :: "(string \<times> 'a) list \<Rightarrow> string list" where
  "object_keys ps = map fst ps"

text \<open>\<^verbatim>\<open>Object.assign(target, source)\<close>: each property of the source is assigned in turn.\<close>

fun object_assign :: "(string \<times> 'a) list \<Rightarrow> (string \<times> 'a) list \<Rightarrow> (string \<times> 'a) list" where
  "object_assign target [] = target"
| "object_assign target ((k, v) # src) = object_assign (obj_set k v target) src"

subsection \<open>String operations\<close>

text \<open>
  \<^verbatim>\<open>s.replace(/:/, "")\<close>: the pattern has no \<^verbatim>\<open>g\<close> flag, so the leftmost match, if
  there is one, is replaced and the scan stops.
\<close>

fun replace_colon :: "string \<Rightarrow> string" where
  "replace_colon [] = []"
| "replace_colon (c # cs) = (if c = CHR '':'' then cs else c # replace_colon cs)"

section \<open>Filter encoder\<close>

text \<open>
  The body of the \<^verbatim>\<open>switch (typeof filters[key])\<close> of \<^verbatim>\<open>convertFilters\<close>: the string
  stored under the key, or the error thrown while computing it.
\<close>

definition filter_case :: "jsval \<Rightarrow> js_error + string" where
  "filter_case v =
     (let t = typeof v in
      if t = ''string'' then
        (case v of JStr s \<Rightarrow> Inr (''ilike.*'' @ replace_colon s @ ''*'') | _ \<Rightarrow> Inl TypeError)
      else if t = ''boolean'' then Inr (''is.'' @ to_string v)
      else if t = ''undefined'' then Inr ''is.null''
      else if t = ''number'' then Inr (''eq.'' @ to_string v)
      else
        (case toString_method v of
           Inl e \<Rightarrow> Inl e
         | Inr s \<Rightarrow> Inr (''ilike.*'' @ replace_colon s @ ''*'')))"

text \<open>
  \<^verbatim>\<open>Object.keys(filters).map(key => ...)\<close>: the keys are visited in order, each one
  assigning \<^verbatim>\<open>rest[key]\<close>; a throw leaves the loop and the function.
\<close>

fun convertFilters_keys ::
  "(string \<times> jsval) list \<Rightarrow> string list \<Rightarrow> (string \<times> string) list
     \<Rightarrow> js_error + (string \<times> string) list" where
  "convertFilters_keys filters [] rest = Inr rest"
| "convertFilters_keys filters (key # keys) rest =
     (case filter_case (obj_get filters key) of
        Inl e \<Rightarrow> Inl e
      | Inr s \<Rightarrow> convertFilters_keys filters keys (obj_set key s rest))"

definition convertFilters :: "(string \<times> jsval) list \<Rightarrow> js_error + (string \<times> string) list" where
  "convertFilters filters = convertFilters_keys filters (object_keys filters) []"

section \<open>Headers\<close>

text \<open>
  A \<^verbatim>\<open>Headers\<close> object as the ordered list of its entries. Names compare without
  regard to ASCII case; \<^verbatim>\<open>set\<close> replaces the entry of that name or appends one.
\<close>

type_synonym headers = "(string \<times> string) list"

definition ascii_lower :: "char \<Rightarrow> char" where
  "ascii_lower c =
     (let n = (of_char c :: nat) in if 65 \<le> n \<and> n \<le> 90 then char_of (n + 32) else c)"

definition same_name :: "string \<Rightarrow> string \<Rightarrow> bool" where
  "same_name a b = (map ascii_lower a = map ascii_lower b)"

fun headers_get :: "headers \<Rightarrow> string \<Rightarrow> string option" where
  "headers_get [] name = None"
| "headers_get ((n, v) # hs) name = (if same_name n name then Some v else headers_get hs name)"

definition headers_has :: "headers \<Rightarrow> string \<Rightarrow> bool" where
  "headers_has hs name = (headers_get hs name \<noteq> None)"

fun headers_set :: "string \<Rightarrow> string \<Rightarrow> headers \<Rightarrow> headers" where
  "headers_set name v [] = [(name, v)]"
| "headers_set name v ((n, w) # hs) =
     (if same_name n name then (n, v) # hs else (n, w) # headers_set name v hs)"

text \<open>Any object is truthy, a \<^verbatim>\<open>Headers\<close> object with no entry included.\<close>

definition truthy_object :: "headers \<Rightarrow> bool" where
  "truthy_object hs = True"

section \<open>Request builder\<close>

text \<open>
  The operation kinds are the string constants of \<^verbatim>\<open>admin-on-rest/lib/rest/types\<close>,
  each one its own name.
\<close>

definition GET_LIST :: string where "GET_LIST = ''GET_LIST''"
definition GET_ONE :: string where "GET_ONE = ''GET_ONE''"
definition GET_MANY :: string where "GET_MANY = ''GET_MANY''"
definition GET_MANY_REFERENCE :: string where "GET_MANY_REFERENCE = ''GET_MANY_REFERENCE''"
definition CREATE :: string where "CREATE = ''CREATE''"
definition UPDATE :: string where "UPDATE = ''UPDATE''"
definition DELETE :: string where "DELETE = ''DELETE''"

definition supported_kinds :: "string set" where
  "supported_kinds = {GET_LIST, GET_ONE, GET_MANY, GET_MANY_REFERENCE, CREATE, UPDATE, DELETE}"

text \<open>
  The parameters of a call, with the fields the builder and the decoder read:
  \<^verbatim>\<open>params.pagination.page\<close>, \<^verbatim>\<open>params.pagination.perPage\<close>,
  \<^verbatim>\<open>params.sort.field\<close>, \<^verbatim>\<open>params.sort.order\<close>, \<^verbatim>\<open>params.filter\<close>,
  \<^verbatim>\<open>params.id\<close>, \<^verbatim>\<open>params.ids\<close>, \<^verbatim>\<open>params.target\<close> and \<^verbatim>\<open>params.data\<close>.
  A kind reads only its own fields.
\<close>

record params =
  p_page :: int
  p_perPage :: int
  p_sort_field :: string
  p_sort_order :: string
  p_filter :: "(string \<times> jsval) list"
  p_id :: jsval
  p_ids :: "jsval list"
  p_target :: string
  p_data :: jsval

record http_options =
  opt_headers :: headers
  opt_method :: "string option"
  opt_body :: "string option"

record request =
  req_url :: string
  req_options :: http_options

text \<open>
  The two library functions the builder calls, taken as parameters: \<^verbatim>\<open>stringify\<close> of
  \<^verbatim>\<open>query-string\<close>, from a query object to its text, and \<^verbatim>\<open>JSON.stringify\<close>, whose
  result is \<^verbatim>\<open>undefined\<close> (here \<open>None\<close>) for a value with no JSON text.
\<close>

record library =
  stringify :: "(string \<times> string) list \<Rightarrow> string"
  JSON_stringify :: "jsval \<Rightarrow> string option"

text \<open>\<^verbatim>\<open>s.toLowerCase()\<close> on the letters A to Z and the Latin-1 capitals.\<close>

definition lower_char :: "char \<Rightarrow> char" where
  "lower_char c =
     (let n = (of_char c :: nat) in
      if (65 \<le> n \<and> n \<le> 90) \<or> (192 \<le> n \<and> n \<le> 222 \<and> n \<noteq> 215) then char_of (n + 32) else c)"

definition toLowerCase :: "string \<Rightarrow> string" where
  "toLowerCase s = map lower_char s"

definition singleResourceUrl :: "library \<Rightarrow> string \<Rightarrow> string \<Rightarrow> params \<Rightarrow> string" where
  "singleResourceUrl lib apiUrl resource ps =
     (let query = [(''id'', ''eq.'' @ to_string (p_id ps))]
      in apiUrl @ ''/'' @ resource @ ''?'' @ stringify lib query)"

definition setSingleResponseHeaders :: "http_options \<Rightarrow> http_options" where
  "setSingleResponseHeaders options =
     options\<lparr>opt_headers :=
       headers_set ''Accept'' ''application/vnd.pgrst.object+json''
         (headers_set ''Prefer'' ''return=representation'' (opt_headers options))\<rparr>"

text \<open>
  The \<^verbatim>\<open>switch (type)\<close> of \<^verbatim>\<open>convertRESTRequestToHTTP\<close>, entered with the options
  built so far.
\<close>

definition request_switch ::
  "library \<Rightarrow> string \<Rightarrow> http_options \<Rightarrow> string \<Rightarrow> string \<Rightarrow> params \<Rightarrow> js_error + request" where
  "request_switch lib apiUrl options type resource ps =
     (if type = GET_LIST then
        (let page = p_page ps; perPage = p_perPage ps;
             field = p_sort_field ps; order = p_sort_order ps;
             h1 = headers_set ''Range-Unit'' ''items'' (opt_headers options);
             h2 = headers_set ''Range''
                    (show_int ((page - 1) * perPage) @ ''-'' @ show_int (page * perPage - 1)) h1;
             h3 = headers_set ''Prefer'' ''count=exact'' h2;
             query = [(''order'', field @ ''.'' @ toLowerCase order)]
         in case convertFilters (p_filter ps) of
              Inl e \<Rightarrow> Inl e
            | Inr rest \<Rightarrow>
                Inr \<lparr>req_url = apiUrl @ ''/'' @ resource @ ''?'' @ stringify lib (object_assign query rest),
                     req_options = options\<lparr>opt_headers := h3\<rparr>\<rparr>)
      else if type = GET_ONE then
        Inr \<lparr>req_url = singleResourceUrl lib apiUrl resource ps,
             req_options = setSingleResponseHeaders options\<rparr>
      else if type = GET_MANY then
        Inr \<lparr>req_url = apiUrl @ ''/'' @ resource @ ''?id=in.('' @ array_join (p_ids ps) @ '')'',
             req_options = options\<rparr>
      else if type = GET_MANY_REFERENCE then
        (let field = p_sort_field ps; order = p_sort_order ps;
             filters = obj_set (p_target ps) (p_id ps) [];
             query = [(''order'', field @ ''.'' @ toLowerCase order)]
         in case convertFilters filters of
              Inl e \<Rightarrow> Inl e
            | Inr rest \<Rightarrow>
                Inr \<lparr>req_url = apiUrl @ ''/'' @ resource @ ''?'' @ stringify lib (object_assign query rest),
                     req_options = options\<rparr>)
      else if type = UPDATE then
        Inr \<lparr>req_url = singleResourceUrl lib apiUrl resource ps,
             req_options = (setSingleResponseHeaders options)
               \<lparr>opt_method := Some ''PATCH'', opt_body := JSON_stringify lib (p_data ps)\<rparr>\<rparr>
      else if type = CREATE then
        Inr \<lparr>req_url = apiUrl @ ''/'' @ resource,
             req_options = (setSingleResponseHeaders options)
               \<lparr>opt_method := Some ''POST'', opt_body := JSON_stringify lib (p_data ps)\<rparr>\<rparr>
      else if type = DELETE then
        Inr \<lparr>req_url = singleResourceUrl lib apiUrl resource ps,
             req_options = options\<lparr>opt_method := Some ''DELETE''\<rparr>\<rparr>
      else Inl (Error (''Unsupported fetch action type '' @ type)))"

text \<open>
  \<^verbatim>\<open>convertRESTRequestToHTTP\<close>. The stored token is what
  \<^verbatim>\<open>localStorage.getItem("token")\<close> returns: a string, or \<^verbatim>\<open>null\<close> (here \<open>None\<close>)
  when no item is stored, and then reading \<^verbatim>\<open>token.length\<close> throws.
\<close>

definition convertRESTRequestToHTTP ::
  "library \<Rightarrow> string \<Rightarrow> string option \<Rightarrow> string \<Rightarrow> string \<Rightarrow> params \<Rightarrow> js_error + request" where
  "convertRESTRequestToHTTP lib apiUrl token type resource ps =
     (let h0 = ([] :: headers);
          h1 = (if \<not> truthy_object h0 then [(''Accept'', ''application/json'')] else h0)
      in case token of
           None \<Rightarrow> Inl TypeError
         | Some t \<Rightarrow>
             (let h2 = (if length t > 16 then headers_set ''Authorization'' (''Bearer '' @ t) h1
                        else h1);
                  options = \<lparr>opt_headers = h2, opt_method = None, opt_body = None\<rparr>
              in request_switch lib apiUrl options type resource ps))"

section \<open>Response decoder\<close>

record response =
  resp_headers :: headers
  resp_json :: jsval

text \<open>
  The result of a call: \<^verbatim>\<open>{data, total}\<close> for the list kinds, \<^verbatim>\<open>{data}\<close> for the
  others. A total of \<open>None\<close> is \<^verbatim>\<open>NaN\<close>.
\<close>

datatype rest_result =
    ListResult jsval "int option"
  | DataResult jsval

text \<open>\<^verbatim>\<open>s.split(c)\<close> for a one-character separator: never an empty array.\<close>

fun str_split :: "char \<Rightarrow> string \<Rightarrow> string list" where
  "str_split c [] = [[]]"
| "str_split c (x # xs) =
     (if x = c then [] # str_split c xs
      else (case str_split c xs of [] \<Rightarrow> [[x]] | p # ps \<Rightarrow> (x # p) # ps))"

text \<open>
  \<^verbatim>\<open>xs.pop()\<close>: the last element, \<^verbatim>\<open>undefined\<close> (here \<open>None\<close>) for an empty array,
  together with the array that remains.
\<close>

definition pop :: "'a list \<Rightarrow> 'a option \<times> 'a list" where
  "pop xs = (if xs = [] then (None, []) else (Some (last xs), butlast xs))"

text \<open>
  \<^verbatim>\<open>parseInt(s, 10)\<close>: leading white space is skipped, one sign is read, then the
  longest run of decimal digits; with no digit there the result is \<^verbatim>\<open>NaN\<close>
  (\<open>None\<close>). What follows the digits is ignored.
\<close>

definition is_space :: "char \<Rightarrow> bool" where
  "is_space c = ((of_char c :: nat) \<in> {9, 10, 11, 12, 13, 32, 160})"

definition is_digit :: "char \<Rightarrow> bool" where
  "is_digit c = (48 \<le> (of_char c :: nat) \<and> (of_char c :: nat) \<le> 57)"

definition digits_value :: "string \<Rightarrow> int" where
  "digits_value ds = foldl (\<lambda>acc c. 10 * acc + (int (of_char c) - 48)) 0 ds"

definition parseInt :: "string \<Rightarrow> int option" where
  "parseInt s =
     (let t = dropWhile is_space s;
          neg = (t \<noteq> [] \<and> hd t = CHR ''-'');
          u = (if t \<noteq> [] \<and> (hd t = CHR ''-'' \<or> hd t = CHR ''+'') then tl t else t);
          ds = takeWhile is_digit u
      in if ds = [] then None
         else Some (if neg then - digits_value ds else digits_value ds))"

text \<open>\<^verbatim>\<open>parseInt(x, 10)\<close> of a value that may be \<^verbatim>\<open>undefined\<close>.\<close>

definition parseInt_of :: "string option \<Rightarrow> int option" where
  "parseInt_of x = (case x of None \<Rightarrow> None | Some s \<Rightarrow> parseInt s)"

text \<open>A number is falsy when it is \<^verbatim>\<open>NaN\<close> or zero.\<close>

definition truthy_number :: "int option \<Rightarrow> bool" where
  "truthy_number n = (n \<noteq> None \<and> n \<noteq> Some 0)"

text \<open>
  The total of a list response, from the text of its \<^verbatim>\<open>Content-Range\<close> header:
  \<^verbatim>\<open>parseInt(rangeParts.pop(), 10) || parseInt(rangeParts[0].split("-").pop(), 10) + 1\<close>.
  The right operand is evaluated only when the left one is falsy; \<^verbatim>\<open>rangeParts[0]\<close>
  is then read from what \<^verbatim>\<open>pop\<close> left, and \<^verbatim>\<open>split\<close> on \<^verbatim>\<open>undefined\<close> throws.
\<close>

definition range_total :: "string \<Rightarrow> js_error + int option" where
  "range_total header =
     (let (popped, rangeParts) = pop (str_split CHR ''/'' header);
          left = parseInt_of popped
      in if truthy_number left then Inr left
         else (case rangeParts of
                 [] \<Rightarrow> Inl TypeError
               | r # _ \<Rightarrow> Inr (map_option (\<lambda>n. n + 1) (parseInt_of (fst (pop (str_split CHR ''-'' r)))))))"

text \<open>\<^verbatim>\<open>json.slice()\<close>: arrays and strings have the method, nothing else in the model has.\<close>

fun slice :: "jsval \<Rightarrow> js_error + jsval" where
  "slice (JArr xs) = Inr (JArr xs)"
| "slice (JStr s) = Inr (JStr s)"
| "slice v = Inl TypeError"

text \<open>
  The properties that \<^verbatim>\<open>{...v}\<close> copies: those of an object, the indexed elements of an
  array, the indexed characters of a string, none of any other value.
\<close>

fun indexed :: "nat \<Rightarrow> jsval list \<Rightarrow> (string \<times> jsval) list" where
  "indexed i [] = []"
| "indexed i (x # xs) = (show_nat i, x) # indexed (Suc i) xs"

fun spread :: "jsval \<Rightarrow> (string \<times> jsval) list" where
  "spread (JObj ps) = ps"
| "spread (JArr xs) = indexed 0 xs"
| "spread (JStr s) = indexed 0 (map (\<lambda>c. JStr [c]) s)"
| "spread v = []"

text \<open>
  \<^verbatim>\<open>json.id\<close>: throws on \<^verbatim>\<open>null\<close> and \<^verbatim>\<open>undefined\<close>, reads the property of an
  object, and is \<^verbatim>\<open>undefined\<close> on every other value.
\<close>

fun get_id :: "jsval \<Rightarrow> js_error + jsval" where
  "get_id JUndefined = Inl TypeError"
| "get_id JNull = Inl TypeError"
| "get_id (JObj ps) = Inr (obj_get ps ''id'')"
| "get_id v = Inr JUndefined"

definition missing_content_range :: string where
  "missing_content_range =
     ''The Content-Range header is missing in the HTTP Response. '' @
     ''The PostgREST client expects responses for lists of resources to contain '' @
     ''this header with the total number of results to build the pagination. '' @
     ''If you are using CORS, did you declare Content-Range in the '' @
     ''Access-Control-Expose-Headers header?''"

definition convertHTTPResponseToREST ::
  "response \<Rightarrow> string \<Rightarrow> string \<Rightarrow> params \<Rightarrow> js_error + rest_result" where
  "convertHTTPResponseToREST resp type resource ps =
     (let hdrs = resp_headers resp; json = resp_json resp in
      if type = GET_LIST \<or> type = GET_MANY_REFERENCE then
        (if \<not> headers_has hdrs ''content-range'' then Inl (Error missing_content_range)
         else
           (case headers_get hdrs ''content-range'' of
              None \<Rightarrow> Inl TypeError
            | Some h \<Rightarrow>
                (case range_total h of
                   Inl e \<Rightarrow> Inl e
                 | Inr tot \<Rightarrow>
                     (case slice json of
                        Inl e \<Rightarrow> Inl e
                      | Inr copy \<Rightarrow> Inr (ListResult copy tot)))))
      else if type = CREATE then
        (case get_id json of
           Inl e \<Rightarrow> Inl e
         | Inr i \<Rightarrow> Inr (DataResult (JObj (obj_set ''id'' i (spread (p_data ps))))))
      else if type = DELETE then Inr (DataResult (JObj []))
      else Inr (DataResult json))"

section \<open>Dispatcher\<close>

text \<open>
  The function the module exports. The transport \<^verbatim>\<open>httpClient\<close> answers a request with
  a response or fails; the list of calls records every request handed to it, so a call
  that leaves the list as it was has not invoked the transport.
\<close>

type_synonym transport = "string \<Rightarrow> http_options \<Rightarrow> js_error + response"

definition dispatcher ::
  "library \<Rightarrow> string \<Rightarrow> transport \<Rightarrow> string option \<Rightarrow> string \<Rightarrow> string \<Rightarrow> params
     \<Rightarrow> request list \<Rightarrow> (js_error + rest_result) \<times> request list" where
  "dispatcher lib apiUrl httpClient token type resource ps calls =
     (case convertRESTRequestToHTTP lib apiUrl token type resource ps of
        Inl e \<Rightarrow> (Inl e, calls)
      | Inr req \<Rightarrow>
          (case httpClient (req_url req) (req_options req) of
             Inl e \<Rightarrow> (Inl e, calls @ [req])
           | Inr resp \<Rightarrow> (convertHTTPResponseToREST resp type resource ps, calls @ [req])))"

section \<open>Sample inputs\<close>

text \<open>
  Concrete inputs on which the definitions above are evaluated: a stand-in for the two
  library functions (the query is written as \<^verbatim>\<open>key=value\<close> pairs joined by
  \<^verbatim>\<open>&\<close>), a parameter object that has every field, and a transport that answers
  every request with an empty page of 23 rows.
\<close>

definition sample_library :: library where
  "sample_library =
     \<lparr>stringify = (\<lambda>q. join ''&'' (map (\<lambda>(k, v). k @ ''='' @ v) q)),
      JSON_stringify = (\<lambda>v. Some (to_string v))\<rparr>"

definition sample_params :: params where
  "sample_params =
     \<lparr>p_page = 2, p_perPage = 10, p_sort_field = ''title'', p_sort_order = ''ASC'',
      p_filter = [(''title'', JStr ''a:b:c''), (''author'', JUndefined)],
      p_id = JNum 123, p_ids = [JNum 1, JNum 2, JNum 3], p_target = ''post_id'',
      p_data = JObj [(''name'', JStr ''x'')]\<rparr>"


section \<open>Basic facts\<close>

lemmas kind_defs =
  GET_LIST_def GET_ONE_def GET_MANY_def GET_MANY_REFERENCE_def CREATE_def UPDATE_def DELETE_def

lemma map_of_obj_set: "map_of (obj_set key v ps) = (map_of ps)(key \<mapsto> v)"
  by (induction ps) (auto simp: fun_eq_iff)

lemma headers_get_set:
  "headers_get (headers_set n v hs) m = (if same_name n m then Some v else headers_get hs m)"
  by (induction hs) (auto simp: same_name_def)

lemma header_names:
  "same_name ''Accept'' ''Accept''"
  "same_name ''Authorization'' ''Authorization''"
  "\<not> same_name ''Authorization'' ''Accept''"
  "\<not> same_name ''Accept'' ''Authorization''"
  "\<not> same_name ''Range-Unit'' ''Accept''"
  "\<not> same_name ''Range'' ''Accept''"
  "\<not> same_name ''Prefer'' ''Accept''"
  "\<not> same_name ''Range-Unit'' ''Authorization''"
  "\<not> same_name ''Range'' ''Authorization''"
  "\<not> same_name ''Prefer'' ''Authorization''"
  "\<not> same_name ''Authorization'' ''Range-Unit''"
  "\<not> same_name ''Authorization'' ''Range''"
  "\<not> same_name ''Authorization'' ''Prefer''"
  by code_simp+

subsection \<open>The filter encoder\<close>



text \<open>The encoder of one value throws on \<^verbatim>\<open>null\<close> and on nothing else.\<close>

lemma filter_case_fails_iff: "(\<exists>e. filter_case v = Inl e) \<longleftrightarrow> v = JNull"
  by (cases v) (simp_all add: filter_case_def)




lemma convertFilters_keys_succeeds:
  "\<forall>k \<in> set keys. obj_get fs k \<noteq> JNull \<Longrightarrow> \<exists>out. convertFilters_keys fs keys rest = Inr out"
proof (induction keys arbitrary: rest)
  case Nil
  then show ?case by simp
next
  case (Cons key keys)
  from Cons.prems have "obj_get fs key \<noteq> JNull" by simp
  then obtain s where s: "filter_case (obj_get fs key) = Inr s"
    using filter_case_fails_iff [of "obj_get fs key"] by (cases "filter_case (obj_get fs key)") auto
  with Cons show ?case by simp
qed

lemma obj_get_in_values: "key \<in> fst ` set fs \<Longrightarrow> obj_get fs key \<in> snd ` set fs"
proof -
  assume "key \<in> fst ` set fs"
  then obtain v where v: "map_of fs key = Some v"
    by (cases "map_of fs key") (auto simp: map_of_eq_None_iff)
  then have "(key, v) \<in> set fs" by (rule map_of_SomeD)
  with v show ?thesis by (force simp: obj_get_def)
qed

text \<open>A filter with no \<^verbatim>\<open>null\<close> value is encoded.\<close>

lemma convertFilters_succeeds:
  "JNull \<notin> snd ` set fs \<Longrightarrow> \<exists>rest. convertFilters fs = Inr rest"
  unfolding convertFilters_def object_keys_def
  by (rule convertFilters_keys_succeeds) (metis obj_get_in_values set_map)


subsection \<open>The request builder\<close>

text \<open>
  With a stored token string, a request is built for every supported kind, unless a
  \<^verbatim>\<open>null\<close> filter value stops the filter encoder.
\<close>

lemma request_switch_succeeds:
  assumes "type \<in> supported_kinds"
    and "type = GET_LIST \<longrightarrow> JNull \<notin> snd ` set (p_filter ps)"
    and "type = GET_MANY_REFERENCE \<longrightarrow> p_id ps \<noteq> JNull"
  shows "\<exists>req. request_switch lib apiUrl options type resource ps = Inr req"
proof -
  from assms(1) consider (list) "type = GET_LIST" | (reference) "type = GET_MANY_REFERENCE"
    | (other) "type \<in> {GET_ONE, GET_MANY, CREATE, UPDATE, DELETE}"
    by (auto simp: supported_kinds_def)
  then show ?thesis
  proof cases
    case list
    with assms(2) obtain rest where "convertFilters (p_filter ps) = Inr rest"
      using convertFilters_succeeds by blast
    with list show ?thesis by (simp add: request_switch_def Let_def)
  next
    case reference
    with assms(3) have "JNull \<notin> snd ` set [(p_target ps, p_id ps)]" by simp
    then obtain rest where "convertFilters [(p_target ps, p_id ps)] = Inr rest"
      using convertFilters_succeeds by blast
    with reference show ?thesis by (simp add: request_switch_def Let_def kind_defs)
  next
    case other
    then show ?thesis by (auto simp: request_switch_def kind_defs)
  qed
qed

lemma request_built:
  assumes "type \<in> supported_kinds"
    and "type = GET_LIST \<longrightarrow> JNull \<notin> snd ` set (p_filter ps)"
    and "type = GET_MANY_REFERENCE \<longrightarrow> p_id ps \<noteq> JNull"
  shows "\<exists>req. convertRESTRequestToHTTP lib apiUrl (Some t) type resource ps = Inr req"
  using request_switch_succeeds [OF assms]
  by (simp add: convertRESTRequestToHTTP_def Let_def)

text \<open>
  The \<^verbatim>\<open>Accept\<close> header of every request that is built: the single-object media type
  for the three kinds that call \<^verbatim>\<open>setSingleResponseHeaders\<close>, none for the others.
\<close>

lemma accept_header_of_request:
  assumes "convertRESTRequestToHTTP lib apiUrl token type resource ps = Inr req"
  shows "headers_get (opt_headers (req_options req)) ''Accept'' =
           (if type = GET_ONE \<or> type = UPDATE \<or> type = CREATE
            then Some ''application/vnd.pgrst.object+json'' else None)"
  using assms
  by (auto simp: convertRESTRequestToHTTP_def request_switch_def truthy_object_def
        setSingleResponseHeaders_def headers_get_set header_names kind_defs Let_def
      split: option.splits if_splits sum.splits)

subsection \<open>The total of a list response\<close>

lemma str_split_not_Nil: "str_split c s \<noteq> []"
  by (induction s) (auto split: list.splits)

lemma str_split_append: "str_split c (a @ c # b) = str_split c a @ str_split c b"
proof (induction a)
  case Nil
  show ?case by simp
next
  case (Cons x a)
  obtain p ps where "str_split c a = p # ps"
    using str_split_not_Nil [of c a] by (cases "str_split c a") auto
  with Cons show ?case by simp
qed

lemma str_split_single: "c \<notin> set s \<Longrightarrow> str_split c s = [s]"
  by (induction s) auto

lemma pop_split_last:
  "c \<notin> set b \<Longrightarrow> pop (str_split c (a @ c # b)) = (Some b, str_split c a)"
  by (simp add: pop_def str_split_append str_split_single str_split_not_Nil)

lemma range_total_examples:
  "range_total ''0-9/23'' = Inr (Some 23)"
  "range_total ''0-9/*'' = Inr (Some 10)"
  "range_total ''*/0'' = Inr None"
  by code_simp+

text \<open>A last segment that \<^verbatim>\<open>parseInt\<close> reads as a number other than zero is the total.\<close>

lemma range_total_parsed:
  assumes "CHR ''/'' \<notin> set seg" and "parseInt seg = Some n" and "n \<noteq> 0"
  shows "range_total (r @ CHR ''/'' # seg) = Inr (Some n)"
  using assms by (simp add: range_total_def pop_split_last parseInt_of_def truthy_number_def)

text \<open>
  A last segment in which \<^verbatim>\<open>parseInt\<close> finds no number gives the end of the range plus
  one.
\<close>

lemma range_total_derived:
  assumes "CHR ''/'' \<notin> set seg" and "parseInt seg = None"
    and "CHR ''/'' \<notin> set s" and "CHR ''/'' \<notin> set e" and "CHR ''-'' \<notin> set e"
  shows "range_total (s @ CHR ''-'' # e @ CHR ''/'' # seg) =
           Inr (map_option (\<lambda>n. n + 1) (parseInt e))"
proof -
  have whole: "CHR ''/'' \<notin> set (s @ CHR ''-'' # e)"
    using assms by simp
  have parts: "pop (str_split CHR ''/'' ((s @ CHR ''-'' # e) @ CHR ''/'' # seg)) =
          (Some seg, [s @ CHR ''-'' # e])"
    using pop_split_last [OF assms(1), of "s @ CHR ''-'' # e"] str_split_single [OF whole]
    by simp
  have last: "pop (str_split CHR ''-'' (s @ CHR ''-'' # e)) = (Some e, str_split CHR ''-'' s)"
    using assms(5) by (rule pop_split_last)
  show ?thesis
    using parts last assms(2)
    by (simp add: range_total_def parseInt_of_def truthy_number_def)
qed

subsection \<open>The decoder of a CREATE response\<close>

text \<open>A body that is \<^verbatim>\<open>null\<close> or was not parsed has no \<^verbatim>\<open>id\<close> to read.\<close>

lemma create_without_body_throws:
  "convertHTTPResponseToREST \<lparr>resp_headers = hs, resp_json = JNull\<rparr> CREATE resource ps =
     Inl TypeError"
  "convertHTTPResponseToREST \<lparr>resp_headers = hs, resp_json = JUndefined\<rparr> CREATE resource ps =
     Inl TypeError"
  by (simp_all add: convertHTTPResponseToREST_def kind_defs)

section \<open>The claims\<close>

subsection \<open>C1: the generic Accept header\<close>

text \<open>
  C1 says that every request descriptor carries \<^verbatim>\<open>Accept: application/json\<close> unless a
  kind-specific rule overrides it. The builder creates an empty \<^verbatim>\<open>Headers\<close> object and
  only then tests \<^verbatim>\<open>!options.headers\<close>, so the branch that would set the header never
  runs: a GET_MANY request with ids 1, 2, 3 and an empty stored token is built with no
  header at all, hence without \<^verbatim>\<open>Accept\<close>.
\<close>

theorem get_many_request_has_no_accept_header:
  "convertRESTRequestToHTTP sample_library ''http://my.api.url'' (Some '''') GET_MANY ''posts''
     sample_params =
   Inr \<lparr>req_url = ''http://my.api.url/posts?id=in.(1,2,3)'',
        req_options = \<lparr>opt_headers = [], opt_method = None, opt_body = None\<rparr>\<rparr>"
  by code_simp

subsection \<open>C2: totality of the filter encoder\<close>

text \<open>
  C2 says that the filter encoder raises no error for any value, \<^verbatim>\<open>null\<close> included.
  \<^verbatim>\<open>typeof null\<close> is \<^verbatim>\<open>"object"\<close>, so \<^verbatim>\<open>null\<close> reaches the default branch, whose
  \<^verbatim>\<open>.toString()\<close> call throws: the filter \<^verbatim>\<open>{title: null}\<close> is not encoded.
\<close>

theorem null_filter_value_throws:
  "convertFilters [(''title'', JNull)] = Inl TypeError"
  by (simp add: convertFilters_def object_keys_def obj_get_def filter_case_def)

subsection \<open>C3: the total of a list response\<close>

text \<open>
  C3 says that a last segment of \<^verbatim>\<open>Content-Range\<close> that is a valid integer is the
  decoded total. The two reads are joined by \<^verbatim>\<open>||\<close>, for which the number zero is
  falsy: the header \<^verbatim>\<open>0-9/0\<close> of a GET_LIST response decodes to the total 10, the end
  of the range plus one, not to 0.
\<close>

theorem zero_total_is_replaced:
  "convertHTTPResponseToREST
     \<lparr>resp_headers = [(''Content-Range'', ''0-9/0'')], resp_json = JArr []\<rparr>
     GET_LIST ''posts'' sample_params =
   Inr (ListResult (JArr []) (Some 10))"
  by code_simp

subsection \<open>C4: the result of CREATE\<close>

text \<open>
  C4: for a CREATE call with submitted fields \<open>d\<close> and a response body that is the record
  \<open>r\<close>, the decoded result is \<open>d\<close> with \<^verbatim>\<open>id\<close> set to \<^verbatim>\<open>r.id\<close>. The \<^verbatim>\<open>id\<close> of the
  result is the one of the response, and every other key has in the result what it has in
  \<open>d\<close>: the submitted fields pass through, no other field of \<open>r\<close> is taken.
\<close>

theorem create_adopts_only_id:
  "convertHTTPResponseToREST \<lparr>resp_headers = hs, resp_json = JObj r\<rparr> CREATE resource
     (ps\<lparr>p_data := JObj d\<rparr>) =
     Inr (DataResult (JObj (obj_set ''id'' (obj_get r ''id'') d))) \<and>
   map_of (obj_set ''id'' (obj_get r ''id'') d) ''id'' = Some (obj_get r ''id'') \<and>
   (\<forall>k. k \<noteq> ''id'' \<longrightarrow> map_of (obj_set ''id'' (obj_get r ''id'') d) k = map_of d k)"
  by (simp add: convertHTTPResponseToREST_def kind_defs map_of_obj_set)

text \<open>
  The example of the specification: \<^verbatim>\<open>{name: "x"}\<close> submitted, \<^verbatim>\<open>{id: 42, name: "y",
  extra: "z"}\<close> received, \<^verbatim>\<open>{name: "x", id: 42}\<close> returned.
\<close>

theorem create_adopts_only_id_witness:
  "convertHTTPResponseToREST
     \<lparr>resp_headers = [],
      resp_json = JObj [(''id'', JNum 42), (''name'', JStr ''y''), (''extra'', JStr ''z'')]\<rparr>
     CREATE ''posts'' (sample_params\<lparr>p_data := JObj [(''name'', JStr ''x'')]\<rparr>) =
     Inr (DataResult (JObj [(''name'', JStr ''x''), (''id'', JNum 42)])) \<and>
   ''name'' \<noteq> ''id'' \<and>
   map_of [(''name'', JStr ''x''), (''id'', JNum 42)] ''name'' = Some (JStr ''x'') \<and>
   map_of [(''name'', JStr ''x''), (''id'', JNum 42)] ''extra'' = None"
  using create_adopts_only_id
    [where hs = "[]" and r = "[(''id'', JNum 42), (''name'', JStr ''y''), (''extra'', JStr ''z'')]"
       and resource = "''posts''" and ps = sample_params and d = "[(''name'', JStr ''x'')]"]
  by (simp add: obj_get_def)

subsection \<open>C5: string filter values\<close>



subsection \<open>C6: a list response without Content-Range\<close>

text \<open>
  C6: for the kinds GET_LIST and GET_MANY_REFERENCE, a response without a
  \<^verbatim>\<open>Content-Range\<close> header makes the decoder fail with the error whose message names
  the header and CORS; no result is returned.
\<close>

theorem missing_content_range_fails:
  assumes "type = GET_LIST \<or> type = GET_MANY_REFERENCE"
    and "\<not> headers_has (resp_headers resp) ''content-range''"
  shows "convertHTTPResponseToREST resp type resource ps = Inl (Error missing_content_range) \<and>
         (\<exists>p s. missing_content_range = p @ ''Content-Range'' @ s) \<and>
         (\<exists>p s. missing_content_range = p @ ''CORS'' @ s)"
proof -
  have "missing_content_range = ''The '' @ ''Content-Range'' @
     '' header is missing in the HTTP Response. The PostgREST client expects responses for lists of resources to contain this header with the total number of results to build the pagination. If you are using CORS, did you declare Content-Range in the Access-Control-Expose-Headers header?''"
    by (simp add: missing_content_range_def)
  then have a: "\<exists>p s. missing_content_range = p @ ''Content-Range'' @ s" by blast
  have "missing_content_range = ''The Content-Range header is missing in the HTTP Response. The PostgREST client expects responses for lists of resources to contain this header with the total number of results to build the pagination. If you are using '' @ ''CORS'' @
     '', did you declare Content-Range in the Access-Control-Expose-Headers header?''"
    by (simp add: missing_content_range_def)
  then have b: "\<exists>p s. missing_content_range = p @ ''CORS'' @ s" by blast
  from assms have "convertHTTPResponseToREST resp type resource ps = Inl (Error missing_content_range)"
    by (auto simp: convertHTTPResponseToREST_def)
  with a b show ?thesis by simp
qed

theorem missing_content_range_fails_witness:
  "(GET_LIST = GET_LIST \<or> GET_LIST = GET_MANY_REFERENCE) \<and>
   \<not> headers_has [(''Content-Type'', ''application/json'')] ''content-range'' \<and>
   convertHTTPResponseToREST
     \<lparr>resp_headers = [(''Content-Type'', ''application/json'')], resp_json = JArr []\<rparr>
     GET_LIST ''posts'' sample_params = Inl (Error missing_content_range)"
proof -
  have h: "\<not> headers_has (resp_headers \<lparr>resp_headers = [(''Content-Type'', ''application/json'')],
      resp_json = JArr []\<rparr>) ''content-range''"
    by code_simp
  have k: "GET_LIST = GET_LIST \<or> GET_LIST = GET_MANY_REFERENCE" by simp
  from missing_content_range_fails [OF k h, of "''posts''" sample_params] h
  show ?thesis by simp
qed

subsection \<open>C7: an unsupported operation kind\<close>




subsection \<open>C8: the Authorization header\<close>



subsection \<open>C9: undefined and omitted filter fields\<close>



subsection \<open>C10: no stored token\<close>

text \<open>
  C10: for every operation kind and every parameter object, when no token is stored the
  builder throws a \<^verbatim>\<open>TypeError\<close> and builds no request; the dispatcher fails with the
  same error and leaves the list of transport calls as it was.
\<close>

theorem missing_token_throws:
  "convertRESTRequestToHTTP lib apiUrl None type resource ps = Inl TypeError \<and>
   dispatcher lib apiUrl httpClient None type resource ps calls = (Inl TypeError, calls)"
  by (simp add: convertRESTRequestToHTTP_def dispatcher_def)

end
